theory Spec2Isabelle
  imports Main "HOL-Library.Word"
begin

unbundle bit_operations_syntax

section \<open>The Virtual Machine Generation ID driver (drivers/virt/vmgenid.c)\<close>

text \<open>
  A shallow embedding of \<^verbatim>\<open>drivers/virt/vmgenid.c\<close>. Each C function of the driver is
  one HOL function of the same name. What the C code mutates is passed explicitly: the
  device with its \<^verbatim>\<open>driver_data\<close> pointer, the heap of allocated driver states, the
  memory the generation id is mapped into, and the ordered list of calls the driver
  makes to its collaborators (the entropy pool, the uevent channel, the kernel log,
  ACPI and devres).
\<close>

subsection \<open>Data\<close>

type_synonym u8 = "8 word"
type_synonym u32 = "32 word"
type_synonym u64 = "64 word"

text \<open>\<^verbatim>\<open>enum { VMGENID_SIZE = 16 };\<close>\<close>

definition VMGENID_SIZE :: nat where
  "VMGENID_SIZE = 16"

text \<open>
  \<^verbatim>\<open>struct vmgenid_state { u8 *next_id; u8 this_id[VMGENID_SIZE]; };\<close>
  The pointer \<open>next_id\<close> is an address of the mapped memory, the array \<open>this_id\<close> the list
  of its bytes.
\<close>

record vmgenid_state =
  next_id :: u64
  this_id :: "u8 list"

text \<open>
  \<^verbatim>\<open>union acpi_object\<close>, by its \<^verbatim>\<open>type\<close> tag. A package carries its elements; its
  \<^verbatim>\<open>package.count\<close> is their number. The driver looks at integers and packages only.
\<close>

datatype acpi_object =
    ACPI_TYPE_INTEGER (integer_value: u64)
  | ACPI_TYPE_STRING string
  | ACPI_TYPE_BUFFER (buffer_bytes: "u8 list")
  | ACPI_TYPE_PACKAGE (package_elements: "acpi_object list")
  | ACPI_TYPE_OTHER nat

fun is_ACPI_TYPE_INTEGER :: "acpi_object \<Rightarrow> bool" where
  "is_ACPI_TYPE_INTEGER (ACPI_TYPE_INTEGER v) = True"
| "is_ACPI_TYPE_INTEGER other = False"

fun is_ACPI_TYPE_PACKAGE :: "acpi_object \<Rightarrow> bool" where
  "is_ACPI_TYPE_PACKAGE (ACPI_TYPE_PACKAGE es) = True"
| "is_ACPI_TYPE_PACKAGE other = False"

fun package_count :: "acpi_object \<Rightarrow> nat" where
  "package_count (ACPI_TYPE_PACKAGE es) = length es"
| "package_count other = 0"

datatype kobject_action = KOBJ_ADD | KOBJ_REMOVE | KOBJ_CHANGE

text \<open>
  The calls the driver makes to code outside the file, in the order it makes them, each
  with the arguments that matter.
\<close>

datatype event =
    Add_vmfork_randomness "u8 list"
  | Add_device_randomness "u8 list"
  | Kobject_uevent_env kobject_action "string list"
  | Acpi_evaluate_object string
  | Acpi_exception u32 string
  | Devm_memremap u64 nat
  | Acpi_install_notify_handler
  | Dev_err string
  | Acpi_free

text \<open>
  What the kernel around the driver supplies. The first group are macros and constants of
  kernel headers that are not part of the driver's file; they are parameters, and nothing
  below depends on their values beyond what a theorem assumes. The second group are the
  answers of the collaborators the driver calls once during attachment:
  \<^verbatim>\<open>devm_kmalloc\<close> (\<open>None\<close> is a NULL return; otherwise the address and the uninitialised
  contents found there), \<^verbatim>\<open>acpi_evaluate_object\<close> for the method \<^verbatim>\<open>ADDR\<close> (the status and
  \<^verbatim>\<open>parsed.pointer\<close>, \<open>None\<close> being NULL), \<^verbatim>\<open>devm_memremap\<close> (the returned pointer, which may
  be an error pointer) and \<^verbatim>\<open>acpi_install_notify_handler\<close> (its status).
\<close>

record platform =
  CONFIG_ACPI :: bool
  IS_ERR :: "u64 \<Rightarrow> bool"
  PTR_ERR :: "u64 \<Rightarrow> int"
  ACPI_FAILURE :: "u32 \<Rightarrow> bool"
  ENODEV :: int
  EINVAL :: int
  ENOMEM :: int
  devm_kmalloc :: "(nat \<times> vmgenid_state) option"
  acpi_evaluate_object :: "u32 \<times> acpi_object option"
  devm_memremap :: "u64 \<Rightarrow> u64"
  acpi_install_notify_handler :: u32

text \<open>
  The state the driver reads and writes: \<^verbatim>\<open>dev->driver_data\<close> (\<open>None\<close> is NULL), the
  allocated \<^verbatim>\<open>struct vmgenid_state\<close> objects by address, the bytes of memory by address
  (the host owns the mapped region and may rewrite it), whether the ACPI notify handler is
  installed, and the calls made so far.
\<close>

record world =
  driver_data :: "nat option"
  heap :: "nat \<rightharpoonup> vmgenid_state"
  ram :: "u64 \<Rightarrow> u8"
  notify_handler :: bool
  trace :: "event list"

datatype change_outcome = Unchanged | Changed

subsection \<open>Library functions of C\<close>

text \<open>
  \<^verbatim>\<open>memcpy(dst, src, n)\<close> with \<open>src\<close> a pointer into memory: the \<open>n\<close> bytes copied. Both
  uses in the driver copy \<^verbatim>\<open>sizeof(state->this_id)\<close> bytes into \<^verbatim>\<open>state->this_id\<close>, that
  is, they replace the whole array.
\<close>

definition memcpy :: "(u64 \<Rightarrow> u8) \<Rightarrow> u64 \<Rightarrow> nat \<Rightarrow> u8 list" where
  "memcpy m src n = map (\<lambda>i. m (src + of_nat i)) [0..<n]"

text \<open>
  \<^verbatim>\<open>memcmp(a, b, n)\<close>: zero when the first \<open>n\<close> bytes agree, otherwise the difference of the
  first pair of bytes that differ.
\<close>

fun memcmp :: "u8 list \<Rightarrow> u8 list \<Rightarrow> nat \<Rightarrow> int" where
  "memcmp (x # xs) (y # ys) (Suc n) =
     (if x = y then memcmp xs ys n else int (unat x) - int (unat y))"
| "memcmp xs ys n = 0"

subsection \<open>The driver\<close>

text \<open>
  \<^verbatim>\<open>vmgenid_notify\<close> (lines 25-37). The C function returns nothing; the outcome names the
  exit it takes: \<open>Unchanged\<close> is the early \<^verbatim>\<open>return\<close> of line 34, \<open>Changed\<close> is falling
  through to the end. \<open>None\<close> is the fault of dereferencing a \<^verbatim>\<open>driver_data\<close> that is
  NULL or points to no live state.
\<close>

definition vmgenid_notify :: "world \<Rightarrow> (change_outcome \<times> world) option" where
  "vmgenid_notify w =
     (case driver_data w of
        None \<Rightarrow> None
      | Some a \<Rightarrow>
          (case heap w a of
             None \<Rightarrow> None
           | Some state \<Rightarrow>
               let old_id = take VMGENID_SIZE (this_id state);
                   state' = state\<lparr>this_id := memcpy (ram w) (next_id state) VMGENID_SIZE\<rparr>;
                   w' = w\<lparr>heap := (heap w)(a \<mapsto> state')\<rparr>
               in if memcmp old_id (this_id state') VMGENID_SIZE = 0
                  then Some (Unchanged, w')
                  else Some (Changed,
                         w'\<lparr>trace := trace w' @
                              [Add_vmfork_randomness (take VMGENID_SIZE (this_id state')),
                               Kobject_uevent_env KOBJ_CHANGE [''NEW_VMGENID=1'']]\<rparr>)))"

text \<open>\<^verbatim>\<open>vmgenid_acpi_handler\<close> (lines 39-44): the handle and the event are unused.\<close>

definition vmgenid_acpi_handler :: "u32 \<Rightarrow> world \<Rightarrow> (change_outcome \<times> world) option" where
  "vmgenid_acpi_handler event w = vmgenid_notify w"

text \<open>
  \<^verbatim>\<open>setup_vmgenid_state\<close> (lines 46-56), with \<open>a\<close> the address of \<^verbatim>\<open>*state\<close>. \<open>None\<close> is
  the fault of writing through a pointer to no live state.
\<close>

definition setup_vmgenid_state :: "platform \<Rightarrow> nat \<Rightarrow> u64 \<Rightarrow> world \<Rightarrow> (int \<times> world) option" where
  "setup_vmgenid_state p a nid w =
     (if IS_ERR p nid then Some (PTR_ERR p nid, w)
      else
        (case heap w a of
           None \<Rightarrow> None
         | Some state \<Rightarrow>
             let state1 = state\<lparr>next_id := nid\<rparr>;
                 state2 = state1\<lparr>this_id := memcpy (ram w) (next_id state1) VMGENID_SIZE\<rparr>
             in Some (0,
                  w\<lparr>heap := (heap w)(a \<mapsto> state2),
                    trace := trace w @
                      [Add_device_randomness (take VMGENID_SIZE (this_id state2))]\<rparr>)))"

text \<open>The test of lines 76-78 on \<^verbatim>\<open>parsed.pointer\<close>, in the order of the C disjunction.\<close>

definition bad_package :: "acpi_object option \<Rightarrow> bool" where
  "bad_package obj =
     (case obj of
        None \<Rightarrow> True
      | Some ob \<Rightarrow>
          \<not> is_ACPI_TYPE_PACKAGE ob \<or> package_count ob \<noteq> 2 \<or>
          \<not> is_ACPI_TYPE_INTEGER (package_elements ob ! 0) \<or>
          \<not> is_ACPI_TYPE_INTEGER (package_elements ob ! 1))"

text \<open>
  Lines 83-84: \<^verbatim>\<open>(elements[0].integer.value << 0) | (elements[1].integer.value << 32)\<close>.
  An ACPI integer value is 64 bits wide, and so is \<^verbatim>\<open>phys_addr_t\<close> here (the physical
  address of the spec is a 64-bit one).
\<close>

definition phys_addr_of :: "u64 \<Rightarrow> u64 \<Rightarrow> u64" where
  "phys_addr_of e0 e1 = push_bit 0 e0 OR push_bit 32 e1"

text \<open>The label \<^verbatim>\<open>out\<close> (lines 101-103).\<close>

definition out :: "int \<Rightarrow> world \<Rightarrow> (int \<times> world) option" where
  "out ret w = Some (ret, w\<lparr>trace := trace w @ [Acpi_free]\<rparr>)"

text \<open>
  \<^verbatim>\<open>vmgenid_add_acpi\<close> (lines 58-107), with \<open>a\<close> the address of \<^verbatim>\<open>*state\<close>. The ACPI
  companion of the device is taken to exist: the driver is bound through its ACPI match
  table. Where the package is read, \<^verbatim>\<open>parsed.pointer\<close> has passed the test of lines 76-78
  and is not NULL.
\<close>

definition vmgenid_add_acpi :: "platform \<Rightarrow> nat \<Rightarrow> world \<Rightarrow> (int \<times> world) option" where
  "vmgenid_add_acpi p a w =
     (if \<not> CONFIG_ACPI p then Some (- EINVAL p, w)
      else
        let status = fst (acpi_evaluate_object p);
            obj = snd (acpi_evaluate_object p);
            w1 = w\<lparr>trace := trace w @ [Acpi_evaluate_object ''ADDR'']\<rparr>
        in if ACPI_FAILURE p status
           then Some (- ENODEV p, w1\<lparr>trace := trace w1 @ [Acpi_exception status ''Evaluating ADDR'']\<rparr>)
           else if bad_package obj then out (- EINVAL p) w1
           else
             let phys_addr = phys_addr_of (integer_value (package_elements (the obj) ! 0))
                                          (integer_value (package_elements (the obj) ! 1));
                 virt_addr = devm_memremap p phys_addr;
                 w2 = w1\<lparr>trace := trace w1 @ [Devm_memremap phys_addr VMGENID_SIZE]\<rparr>
             in (case setup_vmgenid_state p a virt_addr w2 of
                   None \<Rightarrow> None
                 | Some (ret, w3) \<Rightarrow>
                     if ret \<noteq> 0 then out ret w3
                     else
                       let w4 = w3\<lparr>driver_data := Some a\<rparr>;
                           status' = acpi_install_notify_handler p;
                           w5 = w4\<lparr>trace := trace w4 @ [Acpi_install_notify_handler]\<rparr>
                       in if ACPI_FAILURE p status'
                          then out (- ENODEV p)
                                 (w5\<lparr>trace := trace w5 @ [Dev_err ''Failed to install acpi notify handler''],
                                     driver_data := None\<rparr>)
                          else out ret (w5\<lparr>notify_handler := True\<rparr>)))"

text \<open>\<^verbatim>\<open>vmgenid_add\<close> (lines 109-125).\<close>

definition vmgenid_add :: "platform \<Rightarrow> world \<Rightarrow> (int \<times> world) option" where
  "vmgenid_add p w =
     (case devm_kmalloc p of
        None \<Rightarrow> Some (- ENOMEM p, w)
      | Some (a, fresh) \<Rightarrow>
          (case vmgenid_add_acpi p a (w\<lparr>heap := (heap w)(a \<mapsto> fresh)\<rparr>) of
             None \<Rightarrow> None
           | Some (ret, w') \<Rightarrow>
               if ret \<noteq> 0 then Some (ret, w'\<lparr>heap := (heap w')(a := None)\<rparr>)
               else Some (ret, w')))"

subsection \<open>The environment of the driver\<close>

text \<open>
  The host rewriting memory: \<open>bs\<close> is stored from address \<open>addr\<close> on. The driver never
  writes the mapped region; this is the only way its bytes change.
\<close>

definition host_write :: "u64 \<Rightarrow> u8 list \<Rightarrow> world \<Rightarrow> world" where
  "host_write addr bs w =
     w\<lparr>ram := (\<lambda>q. if unat (q - addr) < length bs then bs ! unat (q - addr) else ram w q)\<rparr>"

text \<open>
  ACPI delivering notifications one at a time with no host write in between: the handler
  runs once for each event of the list, and the outcomes are collected in order.
\<close>

fun deliver :: "u32 list \<Rightarrow> world \<Rightarrow> (change_outcome list \<times> world) option" where
  "deliver [] w = Some ([], w)"
| "deliver (ev # evs) w =
     (case vmgenid_acpi_handler ev w of
        None \<Rightarrow> None
      | Some (r, w1) \<Rightarrow>
          (case deliver evs w1 of
             None \<Rightarrow> None
           | Some (rs, w2) \<Rightarrow> Some (r # rs, w2)))"

text \<open>
  The life of an attached device: the host rewrites the region and ACPI delivers
  notifications, in any order. The function that runs such a sequence is \<open>track\<close>
  below.
\<close>

datatype action = Host_write u64 "u8 list" | Notify u32

subsection \<open>Observations on the calls made\<close>

fun is_memremap :: "event \<Rightarrow> bool" where
  "is_memremap (Devm_memremap addr n) = True"
| "is_memremap e = False"

fun is_diagnostic :: "event \<Rightarrow> bool" where
  "is_diagnostic (Dev_err msg) = True"
| "is_diagnostic (Acpi_exception status msg) = True"
| "is_diagnostic e = False"

fun is_injection :: "event \<Rightarrow> bool" where
  "is_injection (Add_vmfork_randomness bs) = True"
| "is_injection (Add_device_randomness bs) = True"
| "is_injection e = False"

fun is_notification :: "event \<Rightarrow> bool" where
  "is_notification (Kobject_uevent_env act envp) = True"
| "is_notification e = False"

fun injected_bytes :: "event \<Rightarrow> u8 list" where
  "injected_bytes (Add_vmfork_randomness bs) = bs"
| "injected_bytes (Add_device_randomness bs) = bs"
| "injected_bytes e = []"

text \<open>The bytes of the most recent entropy injection, if there was one.\<close>

definition last_injected :: "event list \<Rightarrow> u8 list option" where
  "last_injected t =
     (case rev (filter is_injection t) of
        [] \<Rightarrow> None
      | e # es \<Rightarrow> Some (injected_bytes e))"

text \<open>The 16 bytes a state's \<open>next_id\<close> points to, as they are in memory now.\<close>

definition region :: "world \<Rightarrow> vmgenid_state \<Rightarrow> u8 list" where
  "region w state = memcpy (ram w) (next_id state) VMGENID_SIZE"

subsection \<open>A concrete platform\<close>

text \<open>
  The values Linux gives the parameters (\<^verbatim>\<open>MAX_ERRNO\<close> is 4095, \<^verbatim>\<open>AE_OK\<close> is 0), and a
  firmware that answers \<^verbatim>\<open>ADDR\<close> with the package \<open>(0x1000, 0)\<close>, a mapping at
  \<open>0xffff800000000000\<close> above the physical address, and a successful registration.
\<close>

definition linux :: platform where
  "linux =
     \<lparr>CONFIG_ACPI = True,
      IS_ERR = (\<lambda>ptr. - 4095 \<le> ptr),
      PTR_ERR = (\<lambda>ptr. sint ptr),
      ACPI_FAILURE = (\<lambda>status. status \<noteq> 0),
      ENODEV = 19,
      EINVAL = 22,
      ENOMEM = 12,
      devm_kmalloc = Some (64, \<lparr>next_id = 0, this_id = replicate 16 0xAA\<rparr>),
      acpi_evaluate_object =
        (0, Some (ACPI_TYPE_PACKAGE [ACPI_TYPE_INTEGER 0x1000, ACPI_TYPE_INTEGER 0])),
      devm_memremap = (\<lambda>phys. 0xffff800000000000 + phys),
      acpi_install_notify_handler = 0\<rparr>"

text \<open>A device before \<^verbatim>\<open>probe\<close>: no driver data, nothing allocated, memory all zero.\<close>

definition world0 :: world where
  "world0 = \<lparr>driver_data = None, heap = Map.empty, ram = (\<lambda>q. 0),
             notify_handler = False, trace = []\<rparr>"

text \<open>The same device once \<^verbatim>\<open>devm_kmalloc\<close> has returned address 64 with stale contents.\<close>

definition allocated :: world where
  "allocated = world0\<lparr>heap := [64 \<mapsto> \<lparr>next_id = 0, this_id = replicate 16 0xAA\<rparr>]\<rparr>"

text \<open>The pattern \<open>1, 2, ..., 16\<close>, and an attached device whose state at address 64 holds 16 zero bytes.\<close>

definition pattern :: "u8 list" where
  "pattern = map of_nat [1..<17]"

definition attached :: world where
  "attached =
     \<lparr>driver_data = Some 64,
      heap = [64 \<mapsto> \<lparr>next_id = 0xffff800000001000, this_id = replicate 16 0\<rparr>],
      ram = (\<lambda>q. 0), notify_handler = True,
      trace = [Add_device_randomness (replicate 16 0)]\<rparr>"

text \<open>The attached device after the host has rewritten the region to the pattern.\<close>

definition rewritten :: world where
  "rewritten = host_write 0xffff800000001000 pattern attached"

text \<open>
  The rewritten device after one notification: the snapshot is the pattern, and the
  pattern has been injected and announced.
\<close>

definition changed_world :: world where
  "changed_world =
     rewritten\<lparr>heap := (heap rewritten)(64 \<mapsto> \<lparr>next_id = 0xffff800000001000, this_id = pattern\<rparr>),
               trace := [Add_device_randomness (replicate 16 0), Add_vmfork_randomness pattern,
                         Kobject_uevent_env KOBJ_CHANGE [''NEW_VMGENID=1'']]\<rparr>"

text \<open>
  Platforms that differ from \<open>linux\<close> in one answer: the firmware method fails
  (status \<^verbatim>\<open>AE_ERROR\<close>, 1), it returns a package of one element, it returns a low element
  wider than 32 bits, the mapping fails with \<^verbatim>\<open>-ENOMEM\<close> as an error pointer, the
  registration of the notify handler fails.
\<close>

definition linux_query_fails :: platform where
  "linux_query_fails = linux\<lparr>acpi_evaluate_object := (1, None)\<rparr>"

definition linux_one_element :: platform where
  "linux_one_element =
     linux\<lparr>acpi_evaluate_object := (0, Some (ACPI_TYPE_PACKAGE [ACPI_TYPE_INTEGER 0x1000]))\<rparr>"

definition linux_wide_low :: platform where
  "linux_wide_low =
     linux\<lparr>acpi_evaluate_object :=
       (0, Some (ACPI_TYPE_PACKAGE [ACPI_TYPE_INTEGER 0x100000000, ACPI_TYPE_INTEGER 0]))\<rparr>"

definition linux_no_mapping :: platform where
  "linux_no_mapping = linux\<lparr>devm_memremap := (\<lambda>phys. - 12)\<rparr>"

definition linux_no_handler :: platform where
  "linux_no_handler = linux\<lparr>acpi_install_notify_handler := 1\<rparr>"

subsection \<open>Observations on a result\<close>

text \<open>The value returned and the calls made, of a run that did not fault.\<close>

definition returned :: "(int \<times> world) option \<Rightarrow> int option" where
  "returned res = (case res of None \<Rightarrow> None | Some (ret, w) \<Rightarrow> Some ret)"

definition calls :: "(int \<times> world) option \<Rightarrow> event list" where
  "calls res = (case res of None \<Rightarrow> [] | Some (ret, w) \<Rightarrow> trace w)"

subsection \<open>The paths through attachment\<close>

text \<open>
  The branch conditions of \<^verbatim>\<open>vmgenid_add_acpi\<close>, named: the evaluation of \<^verbatim>\<open>ADDR\<close>
  fails (line 71); it succeeds and the object fails the test of lines 76-78; it succeeds
  with the package \<open>(lo, hi)\<close>; then the mapping is an error pointer with a non-zero code
  (lines 49 and 89), or it is a pointer and the notify handler cannot be installed
  (line 95), or it can.
\<close>

definition firmware_query_fails :: "platform \<Rightarrow> bool" where
  "firmware_query_fails p =
     (CONFIG_ACPI p \<and> ACPI_FAILURE p (fst (acpi_evaluate_object p)))"

definition descriptor_malformed :: "platform \<Rightarrow> bool" where
  "descriptor_malformed p =
     (CONFIG_ACPI p \<and> \<not> ACPI_FAILURE p (fst (acpi_evaluate_object p)) \<and>
      bad_package (snd (acpi_evaluate_object p)))"

definition descriptor_is :: "platform \<Rightarrow> u64 \<Rightarrow> u64 \<Rightarrow> bool" where
  "descriptor_is p lo hi =
     (CONFIG_ACPI p \<and> \<not> ACPI_FAILURE p (fst (acpi_evaluate_object p)) \<and>
      snd (acpi_evaluate_object p) =
        Some (ACPI_TYPE_PACKAGE [ACPI_TYPE_INTEGER lo, ACPI_TYPE_INTEGER hi]))"

definition mapping_fails :: "platform \<Rightarrow> u64 \<Rightarrow> u64 \<Rightarrow> bool" where
  "mapping_fails p lo hi =
     (descriptor_is p lo hi \<and>
      IS_ERR p (devm_memremap p (phys_addr_of lo hi)) \<and>
      PTR_ERR p (devm_memremap p (phys_addr_of lo hi)) \<noteq> 0)"

definition registration_fails :: "platform \<Rightarrow> u64 \<Rightarrow> u64 \<Rightarrow> bool" where
  "registration_fails p lo hi =
     (descriptor_is p lo hi \<and>
      \<not> IS_ERR p (devm_memremap p (phys_addr_of lo hi)) \<and>
      ACPI_FAILURE p (acpi_install_notify_handler p))"

definition attach_succeeds :: "platform \<Rightarrow> u64 \<Rightarrow> u64 \<Rightarrow> bool" where
  "attach_succeeds p lo hi =
     (descriptor_is p lo hi \<and>
      \<not> IS_ERR p (devm_memremap p (phys_addr_of lo hi)) \<and>
      \<not> ACPI_FAILURE p (acpi_install_notify_handler p))"

subsection \<open>The snapshot and its invariant\<close>

text \<open>
  The snapshot \<open>this_id\<close> of the state the device points to, and the invariant: there is
  one, it has 16 bytes, and it is the bytes of the most recent entropy injection.
\<close>

definition last_observed :: "world \<Rightarrow> u8 list option" where
  "last_observed w =
     (case driver_data w of
        None \<Rightarrow> None
      | Some a \<Rightarrow> (case heap w a of None \<Rightarrow> None | Some state \<Rightarrow> Some (this_id state)))"

definition baseline_inv :: "world \<Rightarrow> bool" where
  "baseline_inv w =
     (case last_observed w of
        None \<Rightarrow> False
      | Some v \<Rightarrow> length v = VMGENID_SIZE \<and> last_injected (trace w) = Some v)"

text \<open>
  The live value of the region the device watches, read from memory now; and whether a
  step from \<open>w\<close> to \<open>w'\<close> injected entropy.
\<close>

definition watched :: "world \<Rightarrow> u8 list option" where
  "watched w =
     (case driver_data w of
        None \<Rightarrow> None
      | Some a \<Rightarrow> (case heap w a of None \<Rightarrow> None | Some state \<Rightarrow> Some (region w state)))"

definition injected_during :: "world \<Rightarrow> world \<Rightarrow> bool" where
  "injected_during w w' =
     (filter is_injection (trace w') \<noteq> filter is_injection (trace w))"

text \<open>
  Running a sequence of host writes and notifications. Beside the world it carries the
  value the region had in memory the last time entropy was injected: at a notification
  that injects, this becomes the live value of the region before the call, read from
  memory and not from the driver's state; otherwise it stays. It starts as the value of
  the region at initialisation.
\<close>

fun track :: "action list \<Rightarrow> world \<Rightarrow> u8 list option \<Rightarrow> (world \<times> u8 list option) option" where
  "track [] w g = Some (w, g)"
| "track (Host_write addr bs # acts) w g = track acts (host_write addr bs w) g"
| "track (Notify ev # acts) w g =
     (case vmgenid_acpi_handler ev w of
        None \<Rightarrow> None
      | Some (r, w1) \<Rightarrow> track acts w1 (if injected_during w w1 then watched w else g))"

text \<open>
  The invariant with that value \<open>g\<close>: beside \<open>baseline_inv\<close>, the snapshot is \<open>g\<close>, the
  value the region had the last time entropy was injected.
\<close>

definition snapshot_inv :: "world \<Rightarrow> u8 list option \<Rightarrow> bool" where
  "snapshot_inv w g = (baseline_inv w \<and> last_observed w = g)"

section \<open>Properties\<close>

subsection \<open>Copying and comparing bytes\<close>

lemma length_memcpy: "length (memcpy m src n) = n"
  by (simp add: memcpy_def)

lemma length_region: "length (region w st) = VMGENID_SIZE"
  by (simp add: region_def length_memcpy)

lemma zero_bytes: "memcpy (\<lambda>q. 0) src 16 = replicate 16 0"
  by (simp add: memcpy_def map_replicate_const)

lemma memcmp_same: "memcmp xs xs n = 0"
proof (induction xs arbitrary: n)
  case Nil
  show ?case by simp
next
  case (Cons x xs)
  then show ?case by (cases n) simp_all
qed

lemma byte_diff_zero: "(int (unat (x::u8)) - int (unat y) = 0) = (x = y)"
  using word_eq_iff_unsigned by auto

lemma memcmp_zero_iff:
  "n \<le> length xs \<Longrightarrow> n \<le> length ys \<Longrightarrow> (memcmp xs ys n = 0) = (take n xs = take n ys)"
proof (induction xs ys n rule: memcmp.induct)
  case (1 x xs y ys n)
  then show ?case using byte_diff_zero [of x y] by simp
qed simp_all

lemma region_host_write:
  "length bs = VMGENID_SIZE \<Longrightarrow> region (host_write (next_id st) bs w) st = bs"
proof -
  assume len: "length bs = VMGENID_SIZE"
  have "unat (of_nat i :: u64) = i" if "i < 16" for i
    using that by (simp add: unat_of_nat)
  then show ?thesis
    using len unfolding region_def memcpy_def host_write_def VMGENID_SIZE_def
    by (simp add: list_eq_iff_nth_eq)
qed

lemma length_pattern: "length pattern = VMGENID_SIZE"
  by (simp add: pattern_def VMGENID_SIZE_def)

lemma region_rewritten:
  "region rewritten \<lparr>next_id = 0xffff800000001000, this_id = replicate 16 0\<rparr> = pattern"
  using region_host_write [OF length_pattern, of "\<lparr>next_id = 0xffff800000001000, this_id = replicate 16 0\<rparr>" attached]
  by (simp add: rewritten_def)

lemma pattern_not_zero: "pattern \<noteq> replicate 16 0"
proof
  assume "pattern = replicate 16 0"
  then have "pattern ! 0 = replicate 16 (0::u8) ! 0" by simp
  then show False by (simp add: pattern_def)
qed

subsection \<open>One notification\<close>

lemma notify_same:
  assumes "driver_data w = Some a" and "heap w a = Some st" and "region w st = this_id st"
  shows "vmgenid_notify w = Some (Unchanged, w)"
proof -
  have len: "length (this_id st) = VMGENID_SIZE"
    using assms(3) length_region [of w st] by simp
  have "st\<lparr>this_id := this_id st\<rparr> = st" by simp
  moreover have "(heap w)(a \<mapsto> st) = heap w"
    using assms(2) by (simp add: map_upd_triv)
  ultimately show ?thesis
    using assms len by (simp add: vmgenid_notify_def region_def Let_def memcmp_same)
qed

lemma notify_differs:
  assumes "driver_data w = Some a" and "heap w a = Some st"
    and "length (this_id st) = VMGENID_SIZE" and "region w st \<noteq> this_id st"
  shows "vmgenid_notify w =
           Some (Changed,
             w\<lparr>heap := (heap w)(a \<mapsto> st\<lparr>this_id := region w st\<rparr>),
               trace := trace w @ [Add_vmfork_randomness (region w st),
                                   Kobject_uevent_env KOBJ_CHANGE [''NEW_VMGENID=1'']]\<rparr>)"
proof -
  have "memcmp (take VMGENID_SIZE (this_id st)) (region w st) VMGENID_SIZE \<noteq> 0"
    using assms(3,4) length_region [of w st]
    by (simp add: memcmp_zero_iff)
  moreover have "take VMGENID_SIZE (region w st) = region w st"
    using length_region [of w st] by simp
  ultimately show ?thesis
    using assms(1,2) by (simp add: vmgenid_notify_def region_def Let_def)
qed

lemma deliver_same:
  assumes "driver_data w = Some a" and "heap w a = Some st" and "region w st = this_id st"
  shows "deliver evs w = Some (replicate (length evs) Unchanged, w)"
  using notify_same [OF assms]
  by (induction evs) (simp_all add: vmgenid_acpi_handler_def)

lemma deliver_after_change:
  assumes "driver_data w = Some a" and "heap w a = Some st"
    and "length (this_id st) = VMGENID_SIZE" and "region w st \<noteq> this_id st"
  shows "deliver (ev # evs) w =
           Some (Changed # replicate (length evs) Unchanged,
             w\<lparr>heap := (heap w)(a \<mapsto> st\<lparr>this_id := region w st\<rparr>),
               trace := trace w @ [Add_vmfork_randomness (region w st),
                                   Kobject_uevent_env KOBJ_CHANGE [''NEW_VMGENID=1'']]\<rparr>)"
proof -
  define w' where "w' = w\<lparr>heap := (heap w)(a \<mapsto> st\<lparr>this_id := region w st\<rparr>),
               trace := trace w @ [Add_vmfork_randomness (region w st),
                                   Kobject_uevent_env KOBJ_CHANGE [''NEW_VMGENID=1'']]\<rparr>"
  have first: "vmgenid_notify w = Some (Changed, w')"
    unfolding w'_def using assms by (rule notify_differs)
  have "driver_data w' = Some a"
    and "heap w' a = Some (st\<lparr>this_id := region w st\<rparr>)"
    and "region w' (st\<lparr>this_id := region w st\<rparr>) = this_id (st\<lparr>this_id := region w st\<rparr>)"
    using assms(1) by (simp_all add: w'_def region_def)
  then have "deliver evs w' = Some (replicate (length evs) Unchanged, w')"
    by (rule deliver_same)
  with first show ?thesis
    by (simp add: vmgenid_acpi_handler_def w'_def)
qed

lemma notify_overwrites:
  assumes "driver_data w = Some a" and "heap w a = Some st"
    and "length (this_id st) = VMGENID_SIZE"
  shows "\<exists>r w'. vmgenid_notify w = Some (r, w') \<and>
           heap w' a = Some (st\<lparr>this_id := region w st\<rparr>) \<and>
           (r = Unchanged) = (this_id st = region w st)"
proof (cases "region w st = this_id st")
  case True
  with assms(1,2) have "vmgenid_notify w = Some (Unchanged, w)" by (rule notify_same)
  moreover have "st\<lparr>this_id := region w st\<rparr> = st" using True by simp
  ultimately show ?thesis using True assms(2) by simp
next
  case False
  with assms show ?thesis by (simp add: notify_differs)
qed

lemma rewritten_fields:
  "driver_data rewritten = Some 64"
  "heap rewritten 64 = Some \<lparr>next_id = 0xffff800000001000, this_id = replicate 16 0\<rparr>"
  "trace rewritten = [Add_device_randomness (replicate 16 0)]"
  by (simp_all add: rewritten_def host_write_def attached_def)

subsection \<open>Initialisation and the paths through attachment\<close>

lemma state_overwritten:
  "(st::vmgenid_state)\<lparr>next_id := n, this_id := t\<rparr> = \<lparr>next_id = n, this_id = t\<rparr>"
  by (cases st) simp

lemma setup_ok:
  assumes "heap w a = Some st" and "\<not> IS_ERR p nid"
  shows "setup_vmgenid_state p a nid w =
           Some (0, w\<lparr>heap := (heap w)(a \<mapsto> \<lparr>next_id = nid, this_id = memcpy (ram w) nid VMGENID_SIZE\<rparr>),
                      trace := trace w @ [Add_device_randomness (memcpy (ram w) nid VMGENID_SIZE)]\<rparr>)"
  using assms by (simp add: setup_vmgenid_state_def Let_def length_memcpy state_overwritten)

lemma setup_err:
  assumes "IS_ERR p nid"
  shows "setup_vmgenid_state p a nid w = Some (PTR_ERR p nid, w)"
  using assms by (simp add: setup_vmgenid_state_def)

lemma bad_package_iff:
  "bad_package obj =
     (\<not> (\<exists>lo hi. obj = Some (ACPI_TYPE_PACKAGE [ACPI_TYPE_INTEGER lo, ACPI_TYPE_INTEGER hi])))"
proof (cases obj)
  case None
  then show ?thesis by (simp add: bad_package_def)
next
  case (Some ob)
  show ?thesis
  proof (cases ob)
    case (ACPI_TYPE_PACKAGE es)
    show ?thesis
    proof (cases es)
      case Nil
      with Some ACPI_TYPE_PACKAGE show ?thesis by (simp add: bad_package_def)
    next
      case (Cons e0 es1)
      show ?thesis
      proof (cases es1)
        case Nil
        with Some ACPI_TYPE_PACKAGE Cons show ?thesis by (simp add: bad_package_def)
      next
        case (Cons e1 es2)
        with Some ACPI_TYPE_PACKAGE \<open>es = e0 # es1\<close> show ?thesis
          by (cases e0; cases e1; cases es2) (simp_all add: bad_package_def)
      qed
    qed
  qed (simp_all add: Some bad_package_def)
qed

lemma add_acpi_disabled:
  "\<not> CONFIG_ACPI p \<Longrightarrow> vmgenid_add_acpi p a w = Some (- EINVAL p, w)"
  by (simp add: vmgenid_add_acpi_def)

lemma add_acpi_eval_fails:
  assumes "CONFIG_ACPI p" and "ACPI_FAILURE p (fst (acpi_evaluate_object p))"
  shows "vmgenid_add_acpi p a w =
           Some (- ENODEV p,
             w\<lparr>trace := trace w @ [Acpi_evaluate_object ''ADDR'',
                 Acpi_exception (fst (acpi_evaluate_object p)) ''Evaluating ADDR'']\<rparr>)"
  using assms by (simp add: vmgenid_add_acpi_def Let_def)

lemma add_acpi_bad_package:
  assumes "CONFIG_ACPI p" and "\<not> ACPI_FAILURE p (fst (acpi_evaluate_object p))"
    and "bad_package (snd (acpi_evaluate_object p))"
  shows "vmgenid_add_acpi p a w =
           Some (- EINVAL p, w\<lparr>trace := trace w @ [Acpi_evaluate_object ''ADDR'', Acpi_free]\<rparr>)"
  using assms by (simp add: vmgenid_add_acpi_def Let_def out_def)

lemma add_acpi_map_fails:
  assumes "CONFIG_ACPI p" and "\<not> ACPI_FAILURE p (fst (acpi_evaluate_object p))"
    and "snd (acpi_evaluate_object p) = Some (ACPI_TYPE_PACKAGE [ACPI_TYPE_INTEGER lo, ACPI_TYPE_INTEGER hi])"
    and "IS_ERR p (devm_memremap p (phys_addr_of lo hi))"
    and "PTR_ERR p (devm_memremap p (phys_addr_of lo hi)) \<noteq> 0"
  shows "vmgenid_add_acpi p a w =
           Some (PTR_ERR p (devm_memremap p (phys_addr_of lo hi)),
             w\<lparr>trace := trace w @ [Acpi_evaluate_object ''ADDR'',
                 Devm_memremap (phys_addr_of lo hi) VMGENID_SIZE, Acpi_free]\<rparr>)"
  using assms by (simp add: vmgenid_add_acpi_def Let_def out_def bad_package_def setup_err)

lemma add_acpi_mapped:
  assumes "CONFIG_ACPI p" and "\<not> ACPI_FAILURE p (fst (acpi_evaluate_object p))"
    and "snd (acpi_evaluate_object p) = Some (ACPI_TYPE_PACKAGE [ACPI_TYPE_INTEGER lo, ACPI_TYPE_INTEGER hi])"
    and "\<not> IS_ERR p (devm_memremap p (phys_addr_of lo hi))"
    and "heap w a = Some st"
  shows "vmgenid_add_acpi p a w =
           (let nid = devm_memremap p (phys_addr_of lo hi);
                bytes = memcpy (ram w) nid VMGENID_SIZE;
                hp = (heap w)(a \<mapsto> \<lparr>next_id = nid, this_id = bytes\<rparr>);
                calls = trace w @ [Acpi_evaluate_object ''ADDR'',
                          Devm_memremap (phys_addr_of lo hi) VMGENID_SIZE,
                          Add_device_randomness bytes, Acpi_install_notify_handler]
            in if ACPI_FAILURE p (acpi_install_notify_handler p)
               then Some (- ENODEV p,
                      w\<lparr>driver_data := None, heap := hp,
                        trace := calls @ [Dev_err ''Failed to install acpi notify handler'', Acpi_free]\<rparr>)
               else Some (0,
                      w\<lparr>driver_data := Some a, heap := hp, notify_handler := True,
                        trace := calls @ [Acpi_free]\<rparr>))"
  using assms by (simp add: vmgenid_add_acpi_def Let_def out_def bad_package_def setup_ok)

lemma add_acpi_total:
  assumes "heap w a = Some st"
  shows "\<exists>ret w'. vmgenid_add_acpi p a w = Some (ret, w')"
  using assms
  by (simp add: vmgenid_add_acpi_def Let_def out_def setup_vmgenid_state_def)

lemma add_acpi_failure_leaves:
  assumes "vmgenid_add_acpi p a w = Some (ret, w')" and "ret \<noteq> 0"
  shows "driver_data w' = driver_data w \<or> driver_data w' = None"
  using assms
  by (auto simp: vmgenid_add_acpi_def Let_def out_def setup_vmgenid_state_def
      split: if_splits option.splits)

lemma add_acpi_registration_fails:
  assumes "vmgenid_add_acpi p a w = Some (ret, w')" and "registration_fails p lo hi"
  shows "driver_data w' = None"
  using assms
  by (auto simp: vmgenid_add_acpi_def Let_def out_def setup_vmgenid_state_def
      registration_fails_def descriptor_is_def bad_package_def
      split: if_splits option.splits)

lemma add_observed:
  assumes "devm_kmalloc p = Some (a, fresh)"
  shows "returned (vmgenid_add p w) =
           returned (vmgenid_add_acpi p a (w\<lparr>heap := (heap w)(a \<mapsto> fresh)\<rparr>))"
    and "calls (vmgenid_add p w) =
           calls (vmgenid_add_acpi p a (w\<lparr>heap := (heap w)(a \<mapsto> fresh)\<rparr>))"
  using assms
  by (simp_all add: vmgenid_add_def returned_def calls_def split: option.splits prod.splits)

subsection \<open>The physical address\<close>

lemma low_mask:
  fixes L :: u64
  assumes "L \<le> 0xFFFFFFFF"
  shows "L AND 0xFFFFFFFF = L"
proof -
  have m: "(0xFFFFFFFF::u64) = mask 32" by (simp add: mask_eq_exp_minus_1)
  have "uint L \<le> uint (0xFFFFFFFF::u64)" using assms by (simp add: word_le_def)
  then have "uint L < 2 ^ 32" by simp
  then have "L AND mask 32 = L" by (simp add: mask_eq_iff)
  then show ?thesis by (simp add: m)
qed

lemma phys_addr_of_or: "phys_addr_of L H = L OR push_bit 32 H"
  by (simp add: phys_addr_of_def)

lemma add_acpi_memremap:
  assumes "CONFIG_ACPI p" and "\<not> ACPI_FAILURE p (fst (acpi_evaluate_object p))"
    and "snd (acpi_evaluate_object p) = Some (ACPI_TYPE_PACKAGE [ACPI_TYPE_INTEGER L, ACPI_TYPE_INTEGER H])"
    and "heap w a = Some st"
  shows "\<exists>ret w'. vmgenid_add_acpi p a w = Some (ret, w') \<and>
           filter is_memremap (trace w') =
             filter is_memremap (trace w) @ [Devm_memremap (phys_addr_of L H) VMGENID_SIZE]"
  using assms
  by (simp add: vmgenid_add_acpi_def Let_def out_def bad_package_def setup_vmgenid_state_def)

subsection \<open>The concrete platforms\<close>

lemma linux_fields:
  "CONFIG_ACPI linux" "ENODEV linux = 19" "EINVAL linux = 22" "ENOMEM linux = 12"
  "IS_ERR linux = (\<lambda>ptr. - 4095 \<le> ptr)" "PTR_ERR linux = (\<lambda>ptr. sint ptr)"
  "ACPI_FAILURE linux = (\<lambda>status. status \<noteq> 0)"
  "devm_kmalloc linux = Some (64, \<lparr>next_id = 0, this_id = replicate 16 0xAA\<rparr>)"
  "acpi_evaluate_object linux =
     (0, Some (ACPI_TYPE_PACKAGE [ACPI_TYPE_INTEGER 0x1000, ACPI_TYPE_INTEGER 0]))"
  "devm_memremap linux = (\<lambda>phys. 0xffff800000000000 + phys)"
  "acpi_install_notify_handler linux = 0"
  by (simp_all add: linux_def)

lemma linux_paths:
  "firmware_query_fails linux_query_fails"
  "descriptor_malformed linux_one_element"
  "mapping_fails linux_no_mapping 0x1000 0"
  "registration_fails linux_no_handler 0x1000 0"
  "attach_succeeds linux 0x1000 0"
  by (simp_all add: firmware_query_fails_def descriptor_malformed_def mapping_fails_def
      registration_fails_def attach_succeeds_def descriptor_is_def bad_package_def
      linux_query_fails_def linux_one_element_def linux_no_mapping_def linux_no_handler_def
      linux_fields phys_addr_of_def)

subsection \<open>The invariant\<close>

lemma baseline_invD:
  assumes "baseline_inv w"
  obtains a st where "driver_data w = Some a" and "heap w a = Some st"
    and "length (this_id st) = VMGENID_SIZE" and "last_injected (trace w) = Some (this_id st)"
  using assms
  by (auto simp: baseline_inv_def last_observed_def split: option.splits)

lemma last_injected_vmfork:
  "last_injected (t @ [Add_vmfork_randomness bs, Kobject_uevent_env act envp]) = Some bs"
  by (simp add: last_injected_def)

lemma last_injected_device:
  "last_injected (t @ [Acpi_evaluate_object m, Devm_memremap ph n, Add_device_randomness bs,
      Acpi_install_notify_handler, Acpi_free]) = Some bs"
  by (simp add: last_injected_def)

lemma host_write_fields:
  "driver_data (host_write addr bs w) = driver_data w"
  "heap (host_write addr bs w) = heap w"
  "trace (host_write addr bs w) = trace w"
  by (simp_all add: host_write_def)

lemma host_write_last_observed: "last_observed (host_write addr bs w) = last_observed w"
  by (simp add: last_observed_def host_write_fields cong: option.case_cong)

lemma host_write_preserves: "baseline_inv (host_write addr bs w) = baseline_inv w"
  by (simp add: baseline_inv_def host_write_last_observed host_write_fields cong: option.case_cong)

lemma notify_tracked:
  assumes "snapshot_inv w g"
  shows "\<exists>r w'. vmgenid_notify w = Some (r, w') \<and>
           (r = Unchanged) = (watched w = g) \<and>
           last_observed w' = watched w \<and>
           (r = Unchanged \<longrightarrow> w' = w) \<and>
           (r = Changed \<longrightarrow> injected_during w w' \<and> last_injected (trace w') = watched w) \<and>
           (last_observed w' \<noteq> last_observed w \<longrightarrow> r = Changed) \<and>
           snapshot_inv w' (if injected_during w w' then watched w else g)"
proof -
  from assms have b: "baseline_inv w" and g: "last_observed w = g"
    by (simp_all add: snapshot_inv_def)
  from b obtain a st where a: "driver_data w = Some a" and h: "heap w a = Some st"
    and l: "length (this_id st) = VMGENID_SIZE"
    and i: "last_injected (trace w) = Some (this_id st)"
    by (rule baseline_invD)
  have lo: "last_observed w = Some (this_id st)" and wa: "watched w = Some (region w st)"
    using a h by (simp_all add: last_observed_def watched_def)
  show ?thesis
  proof (cases "region w st = this_id st")
    case True
    with a h have "vmgenid_notify w = Some (Unchanged, w)" by (rule notify_same)
    with assms True lo wa g show ?thesis by (simp add: injected_during_def)
  next
    case False
    note n = notify_differs [OF a h l False]
    have "g \<noteq> Some (region w st)" using False lo g by auto
    then show ?thesis
      using a False
      by (simp add: n wa snapshot_inv_def baseline_inv_def last_observed_def
          last_injected_vmfork length_region injected_during_def)
  qed
qed

lemma host_write_snapshot: "snapshot_inv (host_write addr bs w) g = snapshot_inv w g"
  by (simp add: snapshot_inv_def host_write_preserves host_write_last_observed)

lemma track_preserves:
  "snapshot_inv w g \<Longrightarrow> \<exists>w' g'. track acts w g = Some (w', g') \<and> snapshot_inv w' g'"
proof (induction acts arbitrary: w g)
  case Nil
  then show ?case by simp
next
  case (Cons act acts)
  show ?case
  proof (cases act)
    case (Host_write addr bs)
    have "snapshot_inv (host_write addr bs w) g"
      using Cons.prems by (simp add: host_write_snapshot)
    then show ?thesis using Cons.IH Host_write by simp
  next
    case (Notify ev)
    from notify_tracked [OF Cons.prems] obtain r w1
      where "vmgenid_notify w = Some (r, w1)"
        and "snapshot_inv w1 (if injected_during w w1 then watched w else g)" by blast
    then show ?thesis
      using Cons.IH [of w1 "if injected_during w w1 then watched w else g"] Notify
      by (simp add: vmgenid_acpi_handler_def)
  qed
qed

lemma add_establishes_region:
  assumes "devm_kmalloc p = Some (a, fresh)" and "attach_succeeds p lo hi"
  shows "\<exists>w'. vmgenid_add p w = Some (0, w') \<and>
           snapshot_inv w' (Some (memcpy (ram w) (devm_memremap p (phys_addr_of lo hi)) VMGENID_SIZE)) \<and>
           watched w' = Some (memcpy (ram w) (devm_memremap p (phys_addr_of lo hi)) VMGENID_SIZE)"
proof -
  let ?w1 = "w\<lparr>heap := (heap w)(a \<mapsto> fresh)\<rparr>"
  have h: "heap ?w1 a = Some fresh" by simp
  from assms(2) have d: "CONFIG_ACPI p" "\<not> ACPI_FAILURE p (fst (acpi_evaluate_object p))"
    "snd (acpi_evaluate_object p) = Some (ACPI_TYPE_PACKAGE [ACPI_TYPE_INTEGER lo, ACPI_TYPE_INTEGER hi])"
    "\<not> IS_ERR p (devm_memremap p (phys_addr_of lo hi))"
    and ok: "\<not> ACPI_FAILURE p (acpi_install_notify_handler p)"
    by (simp_all add: attach_succeeds_def descriptor_is_def)
  note m = add_acpi_mapped [OF d h]
  show ?thesis
    using assms(1) ok
    by (simp add: vmgenid_add_def m Let_def snapshot_inv_def baseline_inv_def last_observed_def
        watched_def region_def last_injected_device length_memcpy)
qed

lemma baseline_inv_attached: "baseline_inv attached"
  by (simp add: baseline_inv_def last_observed_def attached_def last_injected_def VMGENID_SIZE_def)

lemma snapshot_inv_attached: "snapshot_inv attached (Some (replicate 16 0))"
  using baseline_inv_attached by (simp add: snapshot_inv_def last_observed_def attached_def)

lemma snapshot_inv_rewritten: "snapshot_inv rewritten (Some (replicate 16 0))"
  using snapshot_inv_attached by (simp add: rewritten_def host_write_snapshot)

lemma watched_rewritten: "watched rewritten = Some pattern"
  by (simp add: watched_def rewritten_fields region_rewritten)

lemma notify_rewritten_world: "vmgenid_notify rewritten = Some (Changed, changed_world)"
proof -
  have l: "length (this_id \<lparr>next_id = 0xffff800000001000, this_id = replicate 16 (0::u8)\<rparr>) = VMGENID_SIZE"
    by (simp add: VMGENID_SIZE_def)
  have d: "region rewritten \<lparr>next_id = 0xffff800000001000, this_id = replicate 16 0\<rparr>
             \<noteq> this_id \<lparr>next_id = 0xffff800000001000, this_id = replicate 16 0\<rparr>"
    using pattern_not_zero by (simp add: region_rewritten)
  show ?thesis
    using notify_differs [OF rewritten_fields(1,2) l d]
    by (simp add: region_rewritten rewritten_fields changed_world_def)
qed

lemma changed_world_fields:
  "driver_data changed_world = Some 64"
  "heap changed_world 64 = Some \<lparr>next_id = 0xffff800000001000, this_id = pattern\<rparr>"
  "trace changed_world = [Add_device_randomness (replicate 16 0), Add_vmfork_randomness pattern,
                         Kobject_uevent_env KOBJ_CHANGE [''NEW_VMGENID=1'']]"
  "ram changed_world = ram rewritten"
  by (simp_all add: changed_world_def rewritten_fields)

lemma notify_changed_world: "vmgenid_notify changed_world = Some (Unchanged, changed_world)"
proof -
  have "region changed_world \<lparr>next_id = 0xffff800000001000, this_id = pattern\<rparr> =
        region rewritten \<lparr>next_id = 0xffff800000001000, this_id = replicate 16 0\<rparr>"
    by (simp add: region_def changed_world_fields)
  then have "region changed_world \<lparr>next_id = 0xffff800000001000, this_id = pattern\<rparr> =
        this_id \<lparr>next_id = 0xffff800000001000, this_id = pattern\<rparr>"
    by (simp add: region_rewritten)
  with changed_world_fields(1,2) show ?thesis by (rule notify_same)
qed

lemma track_example:
  "track [Host_write 0xffff800000001000 pattern, Notify 0x80, Notify 0x80] attached
     (Some (replicate 16 0)) = Some (changed_world, Some pattern)"
proof -
  have i: "injected_during rewritten changed_world"
    by (simp add: injected_during_def changed_world_fields rewritten_fields)
  have n: "\<not> injected_during changed_world changed_world"
    by (simp add: injected_during_def)
  show ?thesis
    using i n
    by (simp add: rewritten_def [symmetric] vmgenid_acpi_handler_def notify_rewritten_world
        notify_changed_world watched_rewritten)
qed

section \<open>The claims\<close>

subsection \<open>The address resolver\<close>

text \<open>
  Claim C1, as amended. With a package of two integers \<open>L\<close> and \<open>H\<close>,
  \<^verbatim>\<open>vmgenid_add_acpi\<close> asks \<^verbatim>\<open>devm_memremap\<close> once, for \<^verbatim>\<open>VMGENID_SIZE\<close> bytes at the 64-bit
  address \<open>L | (H << 32)\<close>: the low element is not masked. When \<open>L\<close> fits in 32 bits
  this is \<open>(L & 0xFFFFFFFF) | (H << 32)\<close>, the low element giving bits 0-31 and the high
  element bits 32-63 (its upper 32 bits are shifted out).
\<close>

theorem vmgenid_add_acpi_phys_addr:
  assumes "CONFIG_ACPI p" and "\<not> ACPI_FAILURE p (fst (acpi_evaluate_object p))"
    and "snd (acpi_evaluate_object p) = Some (ACPI_TYPE_PACKAGE [ACPI_TYPE_INTEGER L, ACPI_TYPE_INTEGER H])"
    and "heap w a = Some st"
  shows "\<exists>ret w'. vmgenid_add_acpi p a w = Some (ret, w') \<and>
           filter is_memremap (trace w') =
             filter is_memremap (trace w) @ [Devm_memremap (L OR push_bit 32 H) VMGENID_SIZE] \<and>
           (L \<le> 0xFFFFFFFF \<longrightarrow>
              filter is_memremap (trace w') =
                filter is_memremap (trace w) @
                  [Devm_memremap ((L AND 0xFFFFFFFF) OR push_bit 32 H) VMGENID_SIZE])"
  using add_acpi_memremap [OF assms] by (auto simp: phys_addr_of_or low_mask)

text \<open>The package \<open>(0x1000, 0)\<close> of \<open>linux\<close>.\<close>

theorem vmgenid_add_acpi_phys_addr_witness:
  "\<exists>ret w'. vmgenid_add_acpi linux 64 allocated = Some (ret, w') \<and>
     filter is_memremap (trace w') = [Devm_memremap 0x1000 16]"
proof -
  have c: "CONFIG_ACPI linux" by (simp add: linux_fields)
  have f: "\<not> ACPI_FAILURE linux (fst (acpi_evaluate_object linux))" by (simp add: linux_fields)
  have d: "snd (acpi_evaluate_object linux) =
      Some (ACPI_TYPE_PACKAGE [ACPI_TYPE_INTEGER 0x1000, ACPI_TYPE_INTEGER 0])"
    by (simp add: linux_fields)
  have h: "heap allocated 64 = Some \<lparr>next_id = 0, this_id = replicate 16 0xAA\<rparr>"
    by (simp add: allocated_def)
  have t: "trace allocated = []" by (simp add: allocated_def world0_def)
  show ?thesis
    using vmgenid_add_acpi_phys_addr [OF c f d h] by (simp add: t VMGENID_SIZE_def)
qed

text \<open>
  Claim C1 as stated fails for a low element wider than 32 bits: with \<open>L = 0x100000000\<close>
  and \<open>H = 0\<close> the driver maps \<open>0x100000000\<close>, where the masked formula gives 0.
\<close>

theorem low_element_not_masked:
  "phys_addr_of 0x100000000 0 = 0x100000000 \<and>
   (0x100000000 AND 0xFFFFFFFF) OR push_bit 32 0 = (0 :: u64) \<and>
   phys_addr_of 0x100000000 0 \<noteq> (0x100000000 AND 0xFFFFFFFF) OR push_bit 32 0 \<and>
   filter is_memremap (calls (vmgenid_add linux_wide_low world0)) =
     [Devm_memremap 0x100000000 16]"
  by (simp add: phys_addr_of_def vmgenid_add_def vmgenid_add_acpi_def linux_wide_low_def
      linux_fields world0_def bad_package_def setup_vmgenid_state_def out_def calls_def
      Let_def VMGENID_SIZE_def)

text \<open>
  Claim C6. With ACPI enabled: when the evaluation of \<^verbatim>\<open>ADDR\<close> fails,
  \<^verbatim>\<open>vmgenid_add_acpi\<close> returns \<^verbatim>\<open>-ENODEV\<close> (the spec's ResolutionError) after reporting the
  exception; when it succeeds and the object is not a package of exactly two integers,
  it returns \<^verbatim>\<open>-EINVAL\<close> (the spec's MalformedDescriptor) having made no call but the
  evaluation and \<^verbatim>\<open>ACPI_FREE\<close>; in particular for a package of one element it returns
  \<^verbatim>\<open>-EINVAL\<close> and \<^verbatim>\<open>devm_memremap\<close> is not called.
\<close>

theorem vmgenid_add_acpi_errors:
  assumes "CONFIG_ACPI p"
  shows "(ACPI_FAILURE p (fst (acpi_evaluate_object p)) \<longrightarrow>
            vmgenid_add_acpi p a w =
              Some (- ENODEV p,
                w\<lparr>trace := trace w @ [Acpi_evaluate_object ''ADDR'',
                    Acpi_exception (fst (acpi_evaluate_object p)) ''Evaluating ADDR'']\<rparr>)) \<and>
         (\<not> ACPI_FAILURE p (fst (acpi_evaluate_object p)) \<and>
          \<not> (\<exists>lo hi. snd (acpi_evaluate_object p) =
                 Some (ACPI_TYPE_PACKAGE [ACPI_TYPE_INTEGER lo, ACPI_TYPE_INTEGER hi])) \<longrightarrow>
            vmgenid_add_acpi p a w =
              Some (- EINVAL p, w\<lparr>trace := trace w @ [Acpi_evaluate_object ''ADDR'', Acpi_free]\<rparr>) \<and>
            filter is_memremap (calls (vmgenid_add_acpi p a w)) = filter is_memremap (trace w)) \<and>
         (\<not> ACPI_FAILURE p (fst (acpi_evaluate_object p)) \<and>
          snd (acpi_evaluate_object p) = Some (ACPI_TYPE_PACKAGE [e]) \<longrightarrow>
            returned (vmgenid_add_acpi p a w) = Some (- EINVAL p) \<and>
            filter is_memremap (calls (vmgenid_add_acpi p a w)) = filter is_memremap (trace w))"
proof (intro conjI impI)
  assume "ACPI_FAILURE p (fst (acpi_evaluate_object p))"
  with assms show "vmgenid_add_acpi p a w =
      Some (- ENODEV p,
        w\<lparr>trace := trace w @ [Acpi_evaluate_object ''ADDR'',
            Acpi_exception (fst (acpi_evaluate_object p)) ''Evaluating ADDR'']\<rparr>)"
    by (rule add_acpi_eval_fails)
next
  assume "\<not> ACPI_FAILURE p (fst (acpi_evaluate_object p)) \<and>
          \<not> (\<exists>lo hi. snd (acpi_evaluate_object p) =
                 Some (ACPI_TYPE_PACKAGE [ACPI_TYPE_INTEGER lo, ACPI_TYPE_INTEGER hi]))"
  then have "\<not> ACPI_FAILURE p (fst (acpi_evaluate_object p))"
    and "bad_package (snd (acpi_evaluate_object p))"
    by (simp_all add: bad_package_iff)
  with assms have r: "vmgenid_add_acpi p a w =
      Some (- EINVAL p, w\<lparr>trace := trace w @ [Acpi_evaluate_object ''ADDR'', Acpi_free]\<rparr>)"
    by (rule add_acpi_bad_package)
  then show "vmgenid_add_acpi p a w =
      Some (- EINVAL p, w\<lparr>trace := trace w @ [Acpi_evaluate_object ''ADDR'', Acpi_free]\<rparr>)" .
  show "filter is_memremap (calls (vmgenid_add_acpi p a w)) = filter is_memremap (trace w)"
    by (simp add: r calls_def)
next
  assume one: "\<not> ACPI_FAILURE p (fst (acpi_evaluate_object p)) \<and>
          snd (acpi_evaluate_object p) = Some (ACPI_TYPE_PACKAGE [e])"
  then have "bad_package (snd (acpi_evaluate_object p))"
    by (simp add: bad_package_def)
  with assms one have r: "vmgenid_add_acpi p a w =
      Some (- EINVAL p, w\<lparr>trace := trace w @ [Acpi_evaluate_object ''ADDR'', Acpi_free]\<rparr>)"
    by (simp add: add_acpi_bad_package)
  show "returned (vmgenid_add_acpi p a w) = Some (- EINVAL p)"
    by (simp add: r returned_def)
  show "filter is_memremap (calls (vmgenid_add_acpi p a w)) = filter is_memremap (trace w)"
    by (simp add: r calls_def)
qed

text \<open>A firmware whose method fails, and one that returns a package of one element.\<close>

theorem vmgenid_add_acpi_errors_witness:
  "vmgenid_add_acpi linux_query_fails 64 allocated =
     Some (- 19, allocated\<lparr>trace := [Acpi_evaluate_object ''ADDR'',
                                       Acpi_exception 1 ''Evaluating ADDR'']\<rparr>) \<and>
   vmgenid_add_acpi linux_one_element 64 allocated =
     Some (- 22, allocated\<lparr>trace := [Acpi_evaluate_object ''ADDR'', Acpi_free]\<rparr>) \<and>
   returned (vmgenid_add_acpi linux_one_element 64 allocated) = Some (- 22) \<and>
   filter is_memremap (calls (vmgenid_add_acpi linux_one_element 64 allocated)) = []"
proof -
  have c1: "CONFIG_ACPI linux_query_fails" and c2: "CONFIG_ACPI linux_one_element"
    by (simp_all add: linux_query_fails_def linux_one_element_def linux_fields)
  have f1: "ACPI_FAILURE linux_query_fails (fst (acpi_evaluate_object linux_query_fails))"
    by (simp add: linux_query_fails_def linux_fields)
  have f2: "\<not> ACPI_FAILURE linux_one_element (fst (acpi_evaluate_object linux_one_element))"
    by (simp add: linux_one_element_def linux_fields)
  have d2: "snd (acpi_evaluate_object linux_one_element) =
      Some (ACPI_TYPE_PACKAGE [ACPI_TYPE_INTEGER 0x1000])"
    by (simp add: linux_one_element_def)
  have t: "trace allocated = []" by (simp add: allocated_def world0_def)
  have e: "ENODEV linux_query_fails = 19" "EINVAL linux_one_element = 22"
    "fst (acpi_evaluate_object linux_query_fails) = 1"
    by (simp_all add: linux_query_fails_def linux_one_element_def linux_fields)
  show ?thesis
    using vmgenid_add_acpi_errors [OF c1, of 64 allocated "ACPI_TYPE_INTEGER 0"]
      vmgenid_add_acpi_errors [OF c2, of 64 allocated "ACPI_TYPE_INTEGER 0x1000"] f1 f2 d2
    by (simp add: t e returned_def calls_def)
qed

subsection \<open>Initialisation\<close>

text \<open>
  Claim C5. On a live state, \<^verbatim>\<open>setup_vmgenid_state\<close> with a pointer that is not an error
  pointer returns 0, sets \<open>next_id\<close> to it and \<open>this_id\<close> to the 16 bytes of the region at
  the time of the call, and makes exactly one call, \<^verbatim>\<open>add_device_randomness\<close> with those
  bytes (not \<^verbatim>\<open>add_vmfork_randomness\<close>). With an error pointer it returns the error of
  the pointer and changes nothing. It returns non-zero only for an error pointer.
\<close>

theorem setup_vmgenid_state_correct:
  assumes "heap w a = Some st"
  shows "(\<not> IS_ERR p nid \<longrightarrow>
            setup_vmgenid_state p a nid w =
              Some (0, w\<lparr>heap := (heap w)(a \<mapsto> \<lparr>next_id = nid, this_id = memcpy (ram w) nid VMGENID_SIZE\<rparr>),
                         trace := trace w @ [Add_device_randomness (memcpy (ram w) nid VMGENID_SIZE)]\<rparr>)) \<and>
         (IS_ERR p nid \<longrightarrow> setup_vmgenid_state p a nid w = Some (PTR_ERR p nid, w)) \<and>
         (\<forall>ret w'. setup_vmgenid_state p a nid w = Some (ret, w') \<and> ret \<noteq> 0 \<longrightarrow> IS_ERR p nid)"
proof (cases "IS_ERR p nid")
  case True
  then show ?thesis by (simp add: setup_err)
next
  case False
  with assms show ?thesis by (simp add: setup_ok)
qed

text \<open>A mapped pointer over zero memory, and the error pointer of \<^verbatim>\<open>-ENOMEM\<close>.\<close>

theorem setup_vmgenid_state_correct_witness:
  "setup_vmgenid_state linux 64 0xffff800000001000 allocated =
     Some (0, allocated\<lparr>heap := (heap allocated)(64 \<mapsto>
                           \<lparr>next_id = 0xffff800000001000, this_id = replicate 16 0\<rparr>),
                        trace := [Add_device_randomness (replicate 16 0)]\<rparr>) \<and>
   setup_vmgenid_state linux 64 (- 12) allocated = Some (- 12, allocated)"
proof -
  have h: "heap allocated 64 = Some \<lparr>next_id = 0, this_id = replicate 16 0xAA\<rparr>"
    by (simp add: allocated_def)
  have ok: "\<not> IS_ERR linux 0xffff800000001000" by (simp add: linux_fields)
  have err: "IS_ERR linux (- 12)" by (simp add: linux_fields)
  have r: "ram allocated = (\<lambda>q. 0)" and t: "trace allocated = []"
    by (simp_all add: allocated_def world0_def)
  show ?thesis
    using setup_vmgenid_state_correct [OF h, of linux "0xffff800000001000"]
      setup_vmgenid_state_correct [OF h, of linux "- 12"] ok err
    by (simp add: r t zero_bytes VMGENID_SIZE_def linux_fields)
qed

subsection \<open>Change detection\<close>

text \<open>
  Claim C2. When the 16 bytes read from the region equal the stored \<open>this_id\<close>,
  \<^verbatim>\<open>vmgenid_notify\<close> takes the early return (\<open>Unchanged\<close>) and leaves the world as it
  was: nothing is injected into the entropy pool and no uevent is emitted. The same
  holds for every notification of any sequence delivered while the region keeps that
  value: all outcomes are \<open>Unchanged\<close> and the world at the end is the world at the start.
\<close>

theorem vmgenid_notify_unchanged:
  assumes "driver_data w = Some a" and "heap w a = Some st" and "region w st = this_id st"
  shows "vmgenid_notify w = Some (Unchanged, w) \<and>
         deliver evs w = Some (replicate (length evs) Unchanged, w)"
  using notify_same [OF assms] deliver_same [OF assms] by simp

text \<open>Three notifications to the attached device whose region still holds 16 zero bytes.\<close>

theorem vmgenid_notify_unchanged_witness:
  "vmgenid_notify attached = Some (Unchanged, attached) \<and>
   deliver [0x80, 0x80, 0x80] attached = Some ([Unchanged, Unchanged, Unchanged], attached)"
proof -
  have a: "driver_data attached = Some 64" by (simp add: attached_def)
  have h: "heap attached 64 = Some \<lparr>next_id = 0xffff800000001000, this_id = replicate 16 0\<rparr>"
    by (simp add: attached_def)
  have r: "region attached \<lparr>next_id = 0xffff800000001000, this_id = replicate 16 0\<rparr>
           = this_id \<lparr>next_id = 0xffff800000001000, this_id = replicate 16 0\<rparr>"
    by (simp add: region_def memcpy_def VMGENID_SIZE_def attached_def map_replicate_const)
  show ?thesis
    using vmgenid_notify_unchanged [OF a h r, of "[0x80, 0x80, 0x80]"] by simp
qed

text \<open>
  Claim C3. When the 16 bytes read from the region differ from the stored \<open>this_id\<close>,
  \<^verbatim>\<open>vmgenid_notify\<close> falls through (\<open>Changed\<close>); \<open>this_id\<close> becomes the bytes read; the
  calls made are exactly one \<^verbatim>\<open>add_vmfork_randomness\<close> with those bytes followed by one
  \<^verbatim>\<open>kobject_uevent_env\<close> with \<^verbatim>\<open>KOBJ_CHANGE\<close> and \<^verbatim>\<open>NEW_VMGENID=1\<close>; nothing else changes.
\<close>

theorem vmgenid_notify_changed:
  assumes "driver_data w = Some a" and "heap w a = Some st"
    and "length (this_id st) = VMGENID_SIZE" and "region w st \<noteq> this_id st"
  shows "vmgenid_notify w =
           Some (Changed,
             w\<lparr>heap := (heap w)(a \<mapsto> st\<lparr>this_id := region w st\<rparr>),
               trace := trace w @ [Add_vmfork_randomness (region w st),
                                   Kobject_uevent_env KOBJ_CHANGE [''NEW_VMGENID=1'']]\<rparr>)"
  using assms by (rule notify_differs)

text \<open>The host writes the pattern, then one notification arrives.\<close>

theorem vmgenid_notify_changed_witness:
  "vmgenid_notify rewritten =
     Some (Changed,
       rewritten\<lparr>heap := (heap rewritten)(64 \<mapsto> \<lparr>next_id = 0xffff800000001000, this_id = pattern\<rparr>),
                 trace := [Add_device_randomness (replicate 16 0), Add_vmfork_randomness pattern,
                           Kobject_uevent_env KOBJ_CHANGE [''NEW_VMGENID=1'']]\<rparr>)"
proof -
  have a: "driver_data rewritten = Some 64"
    by (simp add: rewritten_def host_write_def attached_def)
  have h: "heap rewritten 64 = Some \<lparr>next_id = 0xffff800000001000, this_id = replicate 16 0\<rparr>"
    by (simp add: rewritten_def host_write_def attached_def)
  have l: "length (this_id \<lparr>next_id = 0xffff800000001000, this_id = replicate 16 (0::u8)\<rparr>) = VMGENID_SIZE"
    by (simp add: VMGENID_SIZE_def)
  have d: "region rewritten \<lparr>next_id = 0xffff800000001000, this_id = replicate 16 0\<rparr>
             \<noteq> this_id \<lparr>next_id = 0xffff800000001000, this_id = replicate 16 0\<rparr>"
    using pattern_not_zero by (simp add: region_rewritten)
  have t: "trace rewritten = [Add_device_randomness (replicate 16 0)]"
    by (simp add: rewritten_def host_write_def attached_def)
  show ?thesis
    using vmgenid_notify_changed [OF a h l d] by (simp add: region_rewritten t)
qed

text \<open>
  Claim C4. With the region holding a new value, the first of two or more consecutive
  notifications is \<open>Changed\<close> with the side effects of C3, the second is \<open>Unchanged\<close>,
  and so is every further one; the world after all of them is the world after the
  first, so the later ones have no side effect.
\<close>

theorem vmgenid_notify_idempotent:
  assumes "driver_data w = Some a" and "heap w a = Some st"
    and "length (this_id st) = VMGENID_SIZE" and "region w st \<noteq> this_id st"
  shows "deliver (ev # ev' # evs) w =
           Some (Changed # Unchanged # replicate (length evs) Unchanged,
             w\<lparr>heap := (heap w)(a \<mapsto> st\<lparr>this_id := region w st\<rparr>),
               trace := trace w @ [Add_vmfork_randomness (region w st),
                                   Kobject_uevent_env KOBJ_CHANGE [''NEW_VMGENID=1'']]\<rparr>)"
  using deliver_after_change [OF assms, of ev "ev' # evs"] by simp

text \<open>The host writes the pattern, then four notifications arrive.\<close>

theorem vmgenid_notify_idempotent_witness:
  "deliver [0x80, 0x80, 0x80, 0x80] rewritten =
     Some ([Changed, Unchanged, Unchanged, Unchanged],
       rewritten\<lparr>heap := (heap rewritten)(64 \<mapsto> \<lparr>next_id = 0xffff800000001000, this_id = pattern\<rparr>),
                 trace := [Add_device_randomness (replicate 16 0), Add_vmfork_randomness pattern,
                           Kobject_uevent_env KOBJ_CHANGE [''NEW_VMGENID=1'']]\<rparr>)"
proof -
  have a: "driver_data rewritten = Some 64"
    by (simp add: rewritten_def host_write_def attached_def)
  have h: "heap rewritten 64 = Some \<lparr>next_id = 0xffff800000001000, this_id = replicate 16 0\<rparr>"
    by (simp add: rewritten_def host_write_def attached_def)
  have l: "length (this_id \<lparr>next_id = 0xffff800000001000, this_id = replicate 16 (0::u8)\<rparr>) = VMGENID_SIZE"
    by (simp add: VMGENID_SIZE_def)
  have d: "region rewritten \<lparr>next_id = 0xffff800000001000, this_id = replicate 16 0\<rparr>
             \<noteq> this_id \<lparr>next_id = 0xffff800000001000, this_id = replicate 16 0\<rparr>"
    using pattern_not_zero by (simp add: region_rewritten)
  have t: "trace rewritten = [Add_device_randomness (replicate 16 0)]"
    by (simp add: rewritten_def host_write_def attached_def)
  show ?thesis
    using vmgenid_notify_idempotent [OF a h l d, of "0x80" "0x80" "[0x80, 0x80]"]
    by (simp add: region_rewritten t)
qed

text \<open>
  Claim C10. After \<^verbatim>\<open>vmgenid_notify\<close>, whichever exit it takes, \<open>this_id\<close> is the 16 bytes
  read from the region during the call, and the exit is \<open>Unchanged\<close> exactly when the
  value held before the call equals those bytes.
\<close>

theorem vmgenid_notify_this_id_fresh:
  assumes "driver_data w = Some a" and "heap w a = Some st"
    and "length (this_id st) = VMGENID_SIZE"
  shows "\<exists>r w'. vmgenid_notify w = Some (r, w') \<and>
           heap w' a = Some (st\<lparr>this_id := region w st\<rparr>) \<and>
           (r = Unchanged) = (this_id st = region w st)"
  using assms by (rule notify_overwrites)

text \<open>Both exits: the rewritten region (\<open>Changed\<close>) and the untouched one (\<open>Unchanged\<close>).\<close>

theorem vmgenid_notify_this_id_fresh_witness:
  "(\<exists>r w'. vmgenid_notify rewritten = Some (r, w') \<and>
      heap w' 64 = Some \<lparr>next_id = 0xffff800000001000, this_id = pattern\<rparr> \<and>
      r \<noteq> Unchanged) \<and>
   (\<exists>r w'. vmgenid_notify attached = Some (r, w') \<and>
      heap w' 64 = Some \<lparr>next_id = 0xffff800000001000, this_id = replicate 16 0\<rparr> \<and>
      r = Unchanged)"
proof -
  have a: "driver_data rewritten = Some 64"
    by (simp add: rewritten_def host_write_def attached_def)
  have h: "heap rewritten 64 = Some \<lparr>next_id = 0xffff800000001000, this_id = replicate 16 0\<rparr>"
    by (simp add: rewritten_def host_write_def attached_def)
  have l: "length (this_id \<lparr>next_id = 0xffff800000001000, this_id = replicate 16 (0::u8)\<rparr>) = VMGENID_SIZE"
    by (simp add: VMGENID_SIZE_def)
  have a': "driver_data attached = Some 64" by (simp add: attached_def)
  have h': "heap attached 64 = Some \<lparr>next_id = 0xffff800000001000, this_id = replicate 16 0\<rparr>"
    by (simp add: attached_def)
  have r': "region attached \<lparr>next_id = 0xffff800000001000, this_id = replicate 16 0\<rparr> = replicate 16 0"
    by (simp add: region_def memcpy_def VMGENID_SIZE_def attached_def map_replicate_const)
  have p: "replicate 16 0 \<noteq> pattern" using pattern_not_zero by simp
  show ?thesis
    using vmgenid_notify_this_id_fresh [OF a h l] vmgenid_notify_this_id_fresh [OF a' h' l] p
    by (simp add: region_rewritten r')
qed

text \<open>
  Claim C7. The invariant \<open>snapshot_inv\<close>: the snapshot \<open>this_id\<close> is the value the region
  had in memory the last time entropy was injected, or at initialisation, and it is the
  bytes of that injection. After a successful \<^verbatim>\<open>vmgenid_add\<close> it holds with the value the
  region had then. From a world where it holds, any sequence of host writes and
  notifications runs without fault and ends in a world where it holds, for the value
  tracked along the way. At one notification the outcome is \<open>Unchanged\<close> exactly when the
  live region equals the snapshot, so the snapshot is the previous value of the
  comparison; afterwards the snapshot is the live region read at the call; an
  \<open>Unchanged\<close> call leaves the world as it was and a \<open>Changed\<close> one injects the live
  region; the value of the snapshot changes only at a \<open>Changed\<close> call. A host write does
  not change the snapshot.
\<close>

theorem last_observed_invariant:
  "(\<forall>p a fresh lo hi w. devm_kmalloc p = Some (a, fresh) \<and> attach_succeeds p lo hi \<longrightarrow>
      (\<exists>w'. vmgenid_add p w = Some (0, w') \<and>
         snapshot_inv w' (Some (memcpy (ram w) (devm_memremap p (phys_addr_of lo hi)) VMGENID_SIZE)) \<and>
         watched w' = Some (memcpy (ram w) (devm_memremap p (phys_addr_of lo hi)) VMGENID_SIZE))) \<and>
   (\<forall>w g acts. snapshot_inv w g \<longrightarrow>
      (\<exists>w' g'. track acts w g = Some (w', g') \<and> snapshot_inv w' g')) \<and>
   (\<forall>w g. snapshot_inv w g \<longrightarrow>
      (\<exists>r w'. vmgenid_notify w = Some (r, w') \<and>
         (r = Unchanged) = (watched w = g) \<and>
         last_observed w' = watched w \<and>
         (r = Unchanged \<longrightarrow> w' = w) \<and>
         (r = Changed \<longrightarrow> injected_during w w' \<and> last_injected (trace w') = watched w) \<and>
         (last_observed w' \<noteq> last_observed w \<longrightarrow> r = Changed))) \<and>
   (\<forall>addr bs w. last_observed (host_write addr bs w) = last_observed w)"
proof (intro conjI allI impI)
  fix p a fresh lo hi w
  assume "devm_kmalloc p = Some (a, fresh) \<and> attach_succeeds p lo hi"
  then show "\<exists>w'. vmgenid_add p w = Some (0, w') \<and>
         snapshot_inv w' (Some (memcpy (ram w) (devm_memremap p (phys_addr_of lo hi)) VMGENID_SIZE)) \<and>
         watched w' = Some (memcpy (ram w) (devm_memremap p (phys_addr_of lo hi)) VMGENID_SIZE)"
    using add_establishes_region by blast
next
  fix w g acts
  assume "snapshot_inv w g"
  then show "\<exists>w' g'. track acts w g = Some (w', g') \<and> snapshot_inv w' g'"
    by (rule track_preserves)
next
  fix w g
  assume "snapshot_inv w g"
  from notify_tracked [OF this]
  show "\<exists>r w'. vmgenid_notify w = Some (r, w') \<and>
         (r = Unchanged) = (watched w = g) \<and>
         last_observed w' = watched w \<and>
         (r = Unchanged \<longrightarrow> w' = w) \<and>
         (r = Changed \<longrightarrow> injected_during w w' \<and> last_injected (trace w') = watched w) \<and>
         (last_observed w' \<noteq> last_observed w \<longrightarrow> r = Changed)" by blast
next
  fix addr bs w
  show "last_observed (host_write addr bs w) = last_observed w"
    by (rule host_write_last_observed)
qed

text \<open>
  Attachment on \<open>linux\<close> over zero memory; then the host writes the pattern and two
  notifications arrive: the tracked value and the snapshot are the pattern.
\<close>

theorem last_observed_invariant_witness:
  "(\<exists>w'. vmgenid_add linux world0 = Some (0, w') \<and>
      snapshot_inv w' (Some (replicate 16 0)) \<and> watched w' = Some (replicate 16 0)) \<and>
   snapshot_inv attached (Some (replicate 16 0)) \<and>
   track [Host_write 0xffff800000001000 pattern, Notify 0x80, Notify 0x80] attached
     (Some (replicate 16 0)) = Some (changed_world, Some pattern) \<and>
   snapshot_inv changed_world (Some pattern) \<and>
   last_observed changed_world = Some pattern \<and>
   snapshot_inv rewritten (Some (replicate 16 0)) \<and>
   watched rewritten = Some pattern \<and>
   vmgenid_notify rewritten = Some (Changed, changed_world) \<and>
   last_observed changed_world \<noteq> last_observed rewritten \<and>
   last_observed rewritten = last_observed attached"
proof -
  note inv = last_observed_invariant
  have k: "devm_kmalloc linux = Some (64, \<lparr>next_id = 0, this_id = replicate 16 0xAA\<rparr>)"
    by (simp add: linux_fields)
  have z: "memcpy (ram world0) (devm_memremap linux (phys_addr_of 0x1000 0)) VMGENID_SIZE
             = replicate 16 0"
    by (simp add: world0_def VMGENID_SIZE_def zero_bytes)
  from inv k linux_paths(5)
  have "\<exists>w'. vmgenid_add linux world0 = Some (0, w') \<and>
      snapshot_inv w' (Some (memcpy (ram world0) (devm_memremap linux (phys_addr_of 0x1000 0)) VMGENID_SIZE)) \<and>
      watched w' = Some (memcpy (ram world0) (devm_memremap linux (phys_addr_of 0x1000 0)) VMGENID_SIZE)"
    by blast
  then have 1: "\<exists>w'. vmgenid_add linux world0 = Some (0, w') \<and>
      snapshot_inv w' (Some (replicate 16 0)) \<and> watched w' = Some (replicate 16 0)"
    by (simp add: z)
  from inv snapshot_inv_attached
  have "\<exists>w' g'. track [Host_write 0xffff800000001000 pattern, Notify 0x80, Notify 0x80] attached
     (Some (replicate 16 0)) = Some (w', g') \<and> snapshot_inv w' g'" by blast
  then have 2: "snapshot_inv changed_world (Some pattern)"
    unfolding track_example by simp
  then have 3: "last_observed changed_world = Some pattern" by (simp add: snapshot_inv_def)
  have o: "last_observed rewritten = Some (replicate 16 0)"
    by (simp add: last_observed_def rewritten_fields)
  have 4: "last_observed changed_world \<noteq> last_observed rewritten"
    using 3 o pattern_not_zero by simp
  from inv have 5: "last_observed rewritten = last_observed attached"
    unfolding rewritten_def by blast
  from 1 2 3 4 5 snapshot_inv_attached snapshot_inv_rewritten watched_rewritten
    notify_rewritten_world track_example
  show ?thesis by simp
qed

subsection \<open>Failed attachment\<close>

text \<open>
  Claim C8, as amended. Of the failures of attachment, two produce diagnostic output:
  a failed evaluation of \<^verbatim>\<open>ADDR\<close> reports the ACPI exception
  (\<^verbatim>\<open>ACPI_EXCEPTION\<close>, with the text \<^verbatim>\<open>Evaluating ADDR\<close>), and a failed registration of the notify handler logs
  \<^verbatim>\<open>dev_err\<close> (\<^verbatim>\<open>Failed to install acpi notify handler\<close>). A malformed descriptor and a
  failed mapping produce none.
\<close>

theorem attach_failure_diagnostics:
  assumes "devm_kmalloc p = Some (a, fresh)"
  shows "(firmware_query_fails p \<longrightarrow>
            returned (vmgenid_add p w) = Some (- ENODEV p) \<and>
            filter is_diagnostic (calls (vmgenid_add p w)) =
              filter is_diagnostic (trace w) @
                [Acpi_exception (fst (acpi_evaluate_object p)) ''Evaluating ADDR'']) \<and>
         (descriptor_malformed p \<longrightarrow>
            returned (vmgenid_add p w) = Some (- EINVAL p) \<and>
            filter is_diagnostic (calls (vmgenid_add p w)) = filter is_diagnostic (trace w)) \<and>
         (mapping_fails p lo hi \<longrightarrow>
            returned (vmgenid_add p w) = Some (PTR_ERR p (devm_memremap p (phys_addr_of lo hi))) \<and>
            filter is_diagnostic (calls (vmgenid_add p w)) = filter is_diagnostic (trace w)) \<and>
         (registration_fails p lo hi \<longrightarrow>
            returned (vmgenid_add p w) = Some (- ENODEV p) \<and>
            filter is_diagnostic (calls (vmgenid_add p w)) =
              filter is_diagnostic (trace w) @ [Dev_err ''Failed to install acpi notify handler''])"
proof -
  let ?w1 = "w\<lparr>heap := (heap w)(a \<mapsto> fresh)\<rparr>"
  have h: "heap ?w1 a = Some fresh" by simp
  have q: "firmware_query_fails p \<longrightarrow>
            returned (vmgenid_add p w) = Some (- ENODEV p) \<and>
            filter is_diagnostic (calls (vmgenid_add p w)) =
              filter is_diagnostic (trace w) @
                [Acpi_exception (fst (acpi_evaluate_object p)) ''Evaluating ADDR'']"
    unfolding add_observed [OF assms]
    by (simp add: firmware_query_fails_def add_acpi_eval_fails returned_def calls_def)
  have d: "descriptor_malformed p \<longrightarrow>
            returned (vmgenid_add p w) = Some (- EINVAL p) \<and>
            filter is_diagnostic (calls (vmgenid_add p w)) = filter is_diagnostic (trace w)"
    unfolding add_observed [OF assms]
    by (simp add: descriptor_malformed_def add_acpi_bad_package returned_def calls_def)
  have m: "mapping_fails p lo hi \<longrightarrow>
            returned (vmgenid_add p w) = Some (PTR_ERR p (devm_memremap p (phys_addr_of lo hi))) \<and>
            filter is_diagnostic (calls (vmgenid_add p w)) = filter is_diagnostic (trace w)"
    unfolding add_observed [OF assms]
    by (simp add: mapping_fails_def descriptor_is_def add_acpi_map_fails returned_def calls_def)
  have r: "registration_fails p lo hi \<longrightarrow>
            returned (vmgenid_add p w) = Some (- ENODEV p) \<and>
            filter is_diagnostic (calls (vmgenid_add p w)) =
              filter is_diagnostic (trace w) @ [Dev_err ''Failed to install acpi notify handler'']"
    using add_acpi_mapped [where p = p and a = a and w = ?w1 and lo = lo and hi = hi, OF _ _ _ _ h]
    unfolding add_observed [OF assms]
    by (simp add: registration_fails_def descriptor_is_def returned_def calls_def Let_def)
  from q d m r show ?thesis by blast
qed

text \<open>One platform for each of the four failures.\<close>

theorem attach_failure_diagnostics_witness:
  "returned (vmgenid_add linux_query_fails world0) = Some (- 19) \<and>
   filter is_diagnostic (calls (vmgenid_add linux_query_fails world0)) =
     [Acpi_exception 1 ''Evaluating ADDR''] \<and>
   returned (vmgenid_add linux_one_element world0) = Some (- 22) \<and>
   filter is_diagnostic (calls (vmgenid_add linux_one_element world0)) = [] \<and>
   returned (vmgenid_add linux_no_mapping world0) = Some (- 12) \<and>
   filter is_diagnostic (calls (vmgenid_add linux_no_mapping world0)) = [] \<and>
   returned (vmgenid_add linux_no_handler world0) = Some (- 19) \<and>
   filter is_diagnostic (calls (vmgenid_add linux_no_handler world0)) =
     [Dev_err ''Failed to install acpi notify handler'']"
proof -
  have k: "devm_kmalloc linux_query_fails = Some (64, \<lparr>next_id = 0, this_id = replicate 16 0xAA\<rparr>)"
    "devm_kmalloc linux_one_element = Some (64, \<lparr>next_id = 0, this_id = replicate 16 0xAA\<rparr>)"
    "devm_kmalloc linux_no_mapping = Some (64, \<lparr>next_id = 0, this_id = replicate 16 0xAA\<rparr>)"
    "devm_kmalloc linux_no_handler = Some (64, \<lparr>next_id = 0, this_id = replicate 16 0xAA\<rparr>)"
    by (simp_all add: linux_query_fails_def linux_one_element_def linux_no_mapping_def
        linux_no_handler_def linux_fields)
  have e: "ENODEV linux_query_fails = 19" "EINVAL linux_one_element = 22"
    "ENODEV linux_no_handler = 19" "fst (acpi_evaluate_object linux_query_fails) = 1"
    "PTR_ERR linux_no_mapping (devm_memremap linux_no_mapping (phys_addr_of 0x1000 0)) = - 12"
    by (simp_all add: linux_query_fails_def linux_one_element_def linux_no_mapping_def
        linux_no_handler_def linux_fields)
  have t: "trace world0 = []" by (simp add: world0_def)
  show ?thesis
    using attach_failure_diagnostics [where lo = "0x1000" and hi = 0 and w = world0, OF k(1)]
      attach_failure_diagnostics [where lo = "0x1000" and hi = 0 and w = world0, OF k(2)]
      attach_failure_diagnostics [where lo = "0x1000" and hi = 0 and w = world0, OF k(3)]
      attach_failure_diagnostics [where lo = "0x1000" and hi = 0 and w = world0, OF k(4)]
      linux_paths
    by (simp add: e t)
qed

text \<open>
  Claim C8 as stated fails: when the evaluation of \<^verbatim>\<open>ADDR\<close> fails, attachment fails
  with \<^verbatim>\<open>-ENODEV\<close> and the exception is reported.
\<close>

theorem query_failure_is_reported:
  "returned (vmgenid_add linux_query_fails world0) = Some (- 19) \<and>
   filter is_diagnostic (calls (vmgenid_add linux_query_fails world0)) =
     [Acpi_exception 1 ''Evaluating ADDR'']"
  by (simp add: vmgenid_add_def vmgenid_add_acpi_def linux_query_fails_def linux_fields
      world0_def returned_def calls_def Let_def)

text \<open>
  Claim C9. Once \<^verbatim>\<open>devm_kmalloc\<close> has returned a state at an address the device did not
  point to, \<^verbatim>\<open>vmgenid_add\<close> returns; when it returns an error, the state is freed and
  \<^verbatim>\<open>driver_data\<close> does not point to it; when the error is that of a failed registration
  of the notify handler, \<^verbatim>\<open>driver_data\<close> is NULL.
\<close>

theorem vmgenid_add_failure_atomic:
  assumes "devm_kmalloc p = Some (a, fresh)" and "driver_data w \<noteq> Some a"
  shows "\<exists>ret w'. vmgenid_add p w = Some (ret, w') \<and>
           (ret \<noteq> 0 \<longrightarrow> heap w' a = None \<and> driver_data w' \<noteq> Some a) \<and>
           (ret \<noteq> 0 \<and> registration_fails p lo hi \<longrightarrow> driver_data w' = None)"
proof -
  let ?w1 = "w\<lparr>heap := (heap w)(a \<mapsto> fresh)\<rparr>"
  have "heap ?w1 a = Some fresh" by simp
  then obtain ret w2 where r: "vmgenid_add_acpi p a ?w1 = Some (ret, w2)"
    using add_acpi_total by blast
  show ?thesis
  proof (cases "ret = 0")
    case True
    with r assms(1) show ?thesis by (simp add: vmgenid_add_def)
  next
    case False
    with r assms(1) have v: "vmgenid_add p w = Some (ret, w2\<lparr>heap := (heap w2)(a := None)\<rparr>)"
      by (simp add: vmgenid_add_def)
    have "driver_data w2 = driver_data ?w1 \<or> driver_data w2 = None"
      using r False by (rule add_acpi_failure_leaves)
    then have d: "driver_data w2 \<noteq> Some a" using assms(2) by auto
    have "registration_fails p lo hi \<longrightarrow> driver_data w2 = None"
      using r by (auto dest: add_acpi_registration_fails)
    with v d show ?thesis by simp
  qed
qed

text \<open>The registration fails: \<^verbatim>\<open>-ENODEV\<close>, the state is freed, \<^verbatim>\<open>driver_data\<close> is NULL.\<close>

theorem vmgenid_add_failure_atomic_witness:
  "driver_data world0 \<noteq> Some 64 \<and> registration_fails linux_no_handler 0x1000 0 \<and>
   (\<exists>w'. vmgenid_add linux_no_handler world0 = Some (- 19, w') \<and>
      heap w' 64 = None \<and> driver_data w' = None)"
proof -
  have k: "devm_kmalloc linux_no_handler = Some (64, \<lparr>next_id = 0, this_id = replicate 16 0xAA\<rparr>)"
    by (simp add: linux_no_handler_def linux_fields)
  have d: "driver_data world0 \<noteq> Some 64" by (simp add: world0_def)
  have r: "returned (vmgenid_add linux_no_handler world0) = Some (- 19)"
    by (simp add: vmgenid_add_def vmgenid_add_acpi_def linux_no_handler_def linux_fields
      world0_def returned_def Let_def bad_package_def setup_vmgenid_state_def out_def phys_addr_of_def)
  from vmgenid_add_failure_atomic [where lo = "0x1000" and hi = 0, OF k d]
  obtain ret w' where v: "vmgenid_add linux_no_handler world0 = Some (ret, w')"
    and f: "ret \<noteq> 0 \<longrightarrow> heap w' 64 = None \<and> driver_data w' \<noteq> Some 64"
    and g: "ret \<noteq> 0 \<and> registration_fails linux_no_handler 0x1000 0 \<longrightarrow> driver_data w' = None"
    by blast
  from r v have "ret = - 19" by (simp add: returned_def)
  with v f g d linux_paths(4) show ?thesis by simp
qed

end
